theory Spec2Isabelle
  imports Main "HOL-Library.Multiset"
begin

section \<open>The scale-down orchestrator of scale-down-ecs-instances.py\<close>

text \<open>
  The script talks to two remote services through boto3 clients (\<open>autoscaling\<close> and
  \<open>ecs\<close>). The services are not part of the repository, so every definition below takes
  them as a parameter: a record of response functions over an arbitrary world type \<open>'w\<close>.
  A response function reads the world and returns either the error code of a failed
  request or the part of the response the script looks at, together with the next world.
  The model keeps a log of the requests the script issues, in order.
  Output written with \<open>print\<close> is not modelled.
\<close>

subsection \<open>Data\<close>

text \<open>The fields the script reads from one entry of \<open>AutoScalingGroups\<close>.\<close>

record asg =
  AutoScalingGroupName :: string
  DesiredCapacity :: int

text \<open>The fields the script reads from one entry of \<open>containerInstances\<close>;
  \<open>registeredAt\<close> is a point in time, counted in whole units from a fixed origin.\<close>

record container_instance =
  containerInstanceArn :: string
  ec2InstanceId :: string
  registeredAt :: int
  runningTasksCount :: int

text \<open>Python exceptions that can leave a function of the script. \<open>ValueError\<close> and
  \<open>RuntimeError\<close> carry their message, \<open>NameError\<close> and \<open>TypeError\<close> the
  name that was looked up or called, \<open>SystemExit\<close> the argument of \<open>exit\<close>, and
  \<open>ClientError\<close> the error code of a request the service refused.\<close>

datatype pyexc =
    ValueError string
  | RuntimeError string
  | NameError string
  | TypeError string
  | SystemExit "int option"
  | ClientError string

datatype 'a result = Return 'a | Raise pyexc

text \<open>The requests the script can issue, with their arguments.\<close>

datatype call =
    DescribeAutoScalingGroups "string list"
  | ListContainerInstances string
  | DescribeContainerInstances string "string list"
  | UpdateContainerInstancesState string "string list" string
  | TerminateInstanceInAutoScalingGroup string bool

record 'w aws =
  describe_auto_scaling_groups :: "string list \<Rightarrow> 'w \<Rightarrow> (string + asg list) \<times> 'w"
  list_container_instances :: "string \<Rightarrow> 'w \<Rightarrow> (string + string list) \<times> 'w"
  describe_container_instances ::
    "string \<Rightarrow> string list \<Rightarrow> 'w \<Rightarrow> (string + container_instance list) \<times> 'w"
  update_container_instances_state ::
    "string \<Rightarrow> string list \<Rightarrow> string \<Rightarrow> 'w \<Rightarrow> (string + unit) \<times> 'w"
  terminate_instance_in_auto_scaling_group ::
    "string \<Rightarrow> bool \<Rightarrow> 'w \<Rightarrow> (string + unit) \<times> 'w"

record 'w run =
  world :: 'w
  calls :: "call list"

type_synonym ('a, 'w) prog = "'w run \<Rightarrow> 'a result \<times> 'w run"

subsection \<open>Sequencing, raising and requests\<close>

definition return :: "'a \<Rightarrow> ('a, 'w) prog" where
  "return v s = (Return v, s)"

definition raise :: "pyexc \<Rightarrow> ('a, 'w) prog" where
  "raise e s = (Raise e, s)"

text \<open>One statement after another: an exception of the first skips the second.\<close>

definition and_then :: "('a, 'w) prog \<Rightarrow> ('a \<Rightarrow> ('b, 'w) prog) \<Rightarrow> ('b, 'w) prog" where
  "and_then m k s =
     (case m s of
        (Return v, s') \<Rightarrow> k v s'
      | (Raise e, s') \<Rightarrow> (Raise e, s'))"

text \<open>A request: it is logged, the service answers, a refusal is raised.\<close>

definition request :: "call \<Rightarrow> ('w \<Rightarrow> (string + 'a) \<times> 'w) \<Rightarrow> ('a, 'w) prog" where
  "request c f s =
     (case f (world s) of
        (Inr v, w') \<Rightarrow> (Return v, \<lparr>world = w', calls = calls s @ [c]\<rparr>)
      | (Inl e, w') \<Rightarrow> (Raise (ClientError e), \<lparr>world = w', calls = calls s @ [c]\<rparr>))"

text \<open>The exit status of the process when \<open>main\<close> ends with the given result: an
  exception that reaches the top level gives status 1, except \<open>SystemExit\<close>, whose
  argument is the status (\<open>None\<close> is 0).\<close>

fun exit_status :: "unit result \<Rightarrow> int" where
  "exit_status (Return _) = 0"
| "exit_status (Raise (SystemExit None)) = 0"
| "exit_status (Raise (SystemExit (Some n))) = n"
| "exit_status (Raise _) = 1"

subsection \<open>Formatting integers\<close>

text \<open>\<open>str\<close> of a Python int, as the f-strings of the script use it.\<close>

fun str_nat :: "nat \<Rightarrow> string" where
  "str_nat n =
     (if n < 10 then [''0123456789'' ! n]
      else str_nat (n div 10) @ [''0123456789'' ! (n mod 10)])"

declare str_nat.simps [simp del]

definition str_int :: "int \<Rightarrow> string" where
  "str_int i = (if i < 0 then ''-'' @ str_nat (nat (- i)) else str_nat (nat i))"

subsection \<open>Names\<close>

text \<open>The names bound at module level when \<open>main\<close> is called (lines 1 to 5, the
  five \<open>def\<close> statements, and \<open>parser\<close> and \<open>args\<close> of the script block), and
  the built-in functions of Python 3 with the names the \<open>site\<close> module adds.\<close>

definition module_globals :: "string list" where
  "module_globals =
     [''argparse'', ''boto3'', ''autoscaling'', ''ecs'', ''main'', ''get_change'',
      ''get_instances_to_remove'', ''drain_instances'', ''terminate_instance'',
      ''parser'', ''args'']"

definition builtin_names :: "string list" where
  "builtin_names =
     [''abs'', ''aiter'', ''all'', ''anext'', ''any'', ''ascii'', ''bin'', ''bool'',
      ''breakpoint'', ''bytearray'', ''bytes'', ''callable'', ''chr'', ''classmethod'',
      ''compile'', ''complex'', ''delattr'', ''dict'', ''dir'', ''divmod'', ''enumerate'',
      ''eval'', ''exec'', ''filter'', ''float'', ''format'', ''frozenset'', ''getattr'',
      ''globals'', ''hasattr'', ''hash'', ''help'', ''hex'', ''id'', ''input'', ''int'',
      ''isinstance'', ''issubclass'', ''iter'', ''len'', ''list'', ''locals'', ''map'',
      ''max'', ''memoryview'', ''min'', ''next'', ''object'', ''oct'', ''open'', ''ord'',
      ''pow'', ''print'', ''property'', ''range'', ''repr'', ''reversed'', ''round'',
      ''set'', ''setattr'', ''slice'', ''sorted'', ''staticmethod'', ''str'', ''sum'',
      ''super'', ''tuple'', ''type'', ''vars'', ''zip'', ''__import__'',
      ''exit'', ''quit'', ''copyright'', ''credits'', ''license'']"

definition is_bound :: "string \<Rightarrow> bool" where
  "is_bound name = (name \<in> set module_globals \<or> name \<in> set builtin_names)"

subsection \<open>get_change\<close>

definition get_change :: "'w aws \<Rightarrow> string \<Rightarrow> int \<Rightarrow> (int, 'w) prog" where
  "get_change aws asg_name desired_count =
     and_then
       (request (DescribeAutoScalingGroups [asg_name])
          (describe_auto_scaling_groups aws [asg_name]))
       (\<lambda>asgs.
          if length asgs = 0 then raise (ValueError ''Unable to find Auto Scaling Group'')
          else if length asgs > 1 then
            raise (ValueError ''More than one Auto Scaling Group was found'')
          else
            let desired_change = DesiredCapacity (asgs ! 0) - desired_count in
            if desired_change < 0 then
              raise (ValueError (''ASG '' @ asg_name @ '' has fewer than ''
                                  @ str_int desired_count @ '' instances''))
            else if desired_change = 0 then raise (SystemExit None)
            else return desired_change)"

subsection \<open>get_instances_to_remove\<close>

text \<open>The slice \<open>xs[:k]\<close>: a negative \<open>k\<close> counts from the end.\<close>

definition slice_upto :: "'a list \<Rightarrow> int \<Rightarrow> 'a list" where
  "slice_upto xs k =
     (if 0 \<le> k then take (nat k) xs else take (nat (int (length xs) + k)) xs)"

text \<open>The part of \<open>get_instances_to_remove\<close> after the two requests (lines 51 to 58).
  \<open>sorted\<close> is stable, and so is \<open>sort_key\<close>.\<close>

definition select_instances :: "container_instance list \<Rightarrow> int \<Rightarrow> string list" where
  "select_instances raw_instances desired_change =
     (let sorted_instances = sort_key registeredAt raw_instances;
          instances_to_remove = slice_upto sorted_instances desired_change
      in map ec2InstanceId instances_to_remove)"

definition get_instances_to_remove :: "'w aws \<Rightarrow> string \<Rightarrow> int \<Rightarrow> (string list, 'w) prog" where
  "get_instances_to_remove aws cluster_name desired_change =
     and_then
       (request (ListContainerInstances cluster_name)
          (list_container_instances aws cluster_name))
       (\<lambda>container_instance_arns.
          and_then
            (request (DescribeContainerInstances cluster_name container_instance_arns)
               (describe_container_instances aws cluster_name container_instance_arns))
            (\<lambda>raw_instances. return (select_instances raw_instances desired_change)))"

subsection \<open>terminate_instance\<close>

fun terminate_instance :: "'w aws \<Rightarrow> string list \<Rightarrow> (unit, 'w) prog" where
  "terminate_instance aws [] = return ()"
| "terminate_instance aws (instance_id # instances) =
     and_then
       (request (TerminateInstanceInAutoScalingGroup instance_id True)
          (terminate_instance_in_auto_scaling_group aws instance_id True))
       (\<lambda>response. terminate_instance aws instances)"

subsection \<open>Calls through a free name\<close>

text \<open>In two places the script applies a name that no statement of the module binds:
  \<open>sleep(10)\<close> in \<open>drain_instances\<close> and \<open>terminate_instances(instances)\<close> in
  \<open>main\<close>. Python looks the name up when the call is reached and raises
  \<open>NameError\<close> when it is bound neither in the module nor among the built-ins.
  Of the bound names, \<open>terminate_instance\<close> takes one list and \<open>exit\<close> one integer;
  applying any other bound name to one such argument is modelled as a \<open>TypeError\<close>
  (the modules, clients and parser objects are not callable, and the other functions of
  the module take more than one argument).\<close>

datatype pyarg = IntArg int | ListArg "string list"

definition call_global :: "'w aws \<Rightarrow> string \<Rightarrow> pyarg \<Rightarrow> (unit, 'w) prog" where
  "call_global aws name arg =
     (if \<not> is_bound name then raise (NameError name)
      else
        (case arg of
           ListArg xs \<Rightarrow>
             if name = ''terminate_instance'' then terminate_instance aws xs
             else raise (TypeError name)
         | IntArg n \<Rightarrow>
             if name = ''exit'' then raise (SystemExit (Some n))
             else raise (TypeError name)))"

subsection \<open>drain_instances\<close>

definition timeout_message :: "nat \<Rightarrow> string" where
  "timeout_message retries =
     ''Timed out waiting for instances to drain. The script can be ''
     @ ''safely rerun and will pick up from where it left off. This may ''
     @ ''be expected behavior if the tasks take longer than ''
     @ str_nat (retries * 10) @ '' seconds to drain.''"

text \<open>The \<open>while retries > 0 ... else\<close> loop of lines 71 to 89, by the value of
  \<open>retries\<close>: the \<open>else\<close> branch runs when the condition fails, \<open>break\<close> leaves
  the loop without it.\<close>

fun drain_poll :: "'w aws \<Rightarrow> string \<Rightarrow> string list \<Rightarrow> nat \<Rightarrow> (unit, 'w) prog" where
  "drain_poll aws cluster_name instances 0 = raise (RuntimeError (timeout_message 0))"
| "drain_poll aws cluster_name instances (Suc retries) =
     and_then
       (request (DescribeContainerInstances cluster_name instances)
          (describe_container_instances aws cluster_name instances))
       (\<lambda>instance_descriptions.
          if list_all (\<lambda>instance. runningTasksCount instance = 0) instance_descriptions
          then return ()
          else and_then (call_global aws ''sleep'' (IntArg 10))
                 (\<lambda>_. drain_poll aws cluster_name instances retries))"

definition drain_instances :: "'w aws \<Rightarrow> string \<Rightarrow> string list \<Rightarrow> (unit, 'w) prog" where
  "drain_instances aws cluster_name instances =
     and_then
       (request (UpdateContainerInstancesState cluster_name instances ''DRAINING'')
          (update_container_instances_state aws cluster_name instances ''DRAINING''))
       (\<lambda>response. drain_poll aws cluster_name instances 30)"

subsection \<open>main\<close>

definition convergence_message :: string where
  "convergence_message =
     ''Something went wrong and the ASG desired capacity does not match ''
     @ ''the desired value. Please investigate and improve this script.''"

text \<open>Lines 16 to 19: the check after the termination step.\<close>

definition verify :: "'w aws \<Rightarrow> string \<Rightarrow> int \<Rightarrow> (unit, 'w) prog" where
  "verify aws asg_name desired_count =
     and_then (get_change aws asg_name desired_count)
       (\<lambda>change. if change \<noteq> 0 then raise (RuntimeError convergence_message)
                  else return ())"

definition main :: "'w aws \<Rightarrow> string \<Rightarrow> string \<Rightarrow> int \<Rightarrow> (unit, 'w) prog" where
  "main aws cluster_name asg_name desired_count =
     and_then (get_change aws asg_name desired_count)
       (\<lambda>desired_change.
          and_then (get_instances_to_remove aws cluster_name desired_change)
            (\<lambda>instances.
               and_then (drain_instances aws cluster_name instances)
                 (\<lambda>_.
                    and_then (call_global aws ''terminate_instances'' (ListArg instances))
                      (\<lambda>_. verify aws asg_name desired_count))))"

subsection \<open>A simulated service\<close>

text \<open>A small world to run the script in: the scaling groups, the registered container
  instances, and the instance ids whose termination the service refuses. Reads leave the
  world as it is; a termination that is accepted removes the instance and lowers the
  desired capacity of every group by one.\<close>

record sim =
  sim_groups :: "asg list"
  sim_instances :: "container_instance list"
  sim_refused :: "string list"

definition sim_aws :: "sim aws" where
  "sim_aws =
     \<lparr>describe_auto_scaling_groups =
        (\<lambda>names w. (Inr (filter (\<lambda>g. AutoScalingGroupName g \<in> set names) (sim_groups w)), w)),
      list_container_instances =
        (\<lambda>cluster w. (Inr (map containerInstanceArn (sim_instances w)), w)),
      describe_container_instances =
        (\<lambda>cluster ids w.
           (Inr (filter (\<lambda>i. containerInstanceArn i \<in> set ids \<or> ec2InstanceId i \<in> set ids)
                   (sim_instances w)), w)),
      update_container_instances_state = (\<lambda>cluster ids status w. (Inr (), w)),
      terminate_instance_in_auto_scaling_group =
        (\<lambda>instance_id decrement w.
           if instance_id \<in> set (sim_refused w) then (Inl ''ValidationError'', w)
           else (Inr (),
                 w\<lparr>sim_groups :=
                      map (\<lambda>g. g\<lparr>DesiredCapacity := DesiredCapacity g - 1\<rparr>) (sim_groups w),
                    sim_instances :=
                      filter (\<lambda>i. ec2InstanceId i \<noteq> instance_id) (sim_instances w)\<rparr>))\<rparr>"

definition node :: "string \<Rightarrow> string \<Rightarrow> int \<Rightarrow> int \<Rightarrow> container_instance" where
  "node arn instance_id t n =
     \<lparr>containerInstanceArn = arn, ec2InstanceId = instance_id, registeredAt = t,
      runningTasksCount = n\<rparr>"

definition group :: "string \<Rightarrow> int \<Rightarrow> asg" where
  "group name n = \<lparr>AutoScalingGroupName = name, DesiredCapacity = n\<rparr>"

text \<open>Three idle instances in a group of desired capacity 3.\<close>

definition idle_world :: sim where
  "idle_world =
     \<lparr>sim_groups = [group ''web'' 3],
      sim_instances = [node ''arn-b'' ''i-b'' 20 0, node ''arn-a'' ''i-a'' 10 0,
                       node ''arn-c'' ''i-c'' 30 0],
      sim_refused = []\<rparr>"

text \<open>The same, with the oldest instance still running one task.\<close>

definition busy_world :: sim where
  "busy_world =
     \<lparr>sim_groups = [group ''web'' 3],
      sim_instances = [node ''arn-b'' ''i-b'' 20 0, node ''arn-a'' ''i-a'' 10 1,
                       node ''arn-c'' ''i-c'' 30 0],
      sim_refused = []\<rparr>"

text \<open>The idle world, with the termination of \<open>i-a\<close> refused.\<close>

definition refusing_world :: sim where
  "refusing_world = idle_world\<lparr>sim_refused := [''i-a'']\<rparr>"

text \<open>No group, and two groups under one name.\<close>

definition empty_world :: sim where
  "empty_world = \<lparr>sim_groups = [], sim_instances = [], sim_refused = []\<rparr>"

definition twin_world :: sim where
  "twin_world =
     \<lparr>sim_groups = [group ''web'' 3, group ''web'' 5], sim_instances = [], sim_refused = []\<rparr>"

definition start :: "'w \<Rightarrow> 'w run" where
  "start w = \<lparr>world = w, calls = []\<rparr>"

text \<open>The requests that terminate an instance.\<close>

fun is_termination :: "call \<Rightarrow> bool" where
  "is_termination (TerminateInstanceInAutoScalingGroup _ _) = True"
| "is_termination _ = False"

section \<open>What each function does, request by request\<close>

lemma sleep_unbound: "\<not> is_bound ''sleep''"
  by (simp add: is_bound_def module_globals_def builtin_names_def)

lemma terminate_instances_unbound: "\<not> is_bound ''terminate_instances''"
  by (simp add: is_bound_def module_globals_def builtin_names_def)

lemma call_global_unbound: "\<not> is_bound name \<Longrightarrow> call_global aws name arg s = (Raise (NameError name), s)"
  by (simp add: call_global_def raise_def)

lemma get_change_eq:
  "get_change aws a d s =
     (case describe_auto_scaling_groups aws [a] (world s) of
        (Inl e, w') \<Rightarrow> (Raise (ClientError e), \<lparr>world = w', calls = calls s @ [DescribeAutoScalingGroups [a]]\<rparr>)
      | (Inr asgs, w') \<Rightarrow>
          ((case asgs of
              [] \<Rightarrow> Raise (ValueError ''Unable to find Auto Scaling Group'')
            | [g] \<Rightarrow>
                if DesiredCapacity g - d < 0 then
                  Raise (ValueError (''ASG '' @ a @ '' has fewer than '' @ str_int d @ '' instances''))
                else if DesiredCapacity g - d = 0 then Raise (SystemExit None)
                else Return (DesiredCapacity g - d)
            | _ \<Rightarrow> Raise (ValueError ''More than one Auto Scaling Group was found'')),
           \<lparr>world = w', calls = calls s @ [DescribeAutoScalingGroups [a]]\<rparr>))"
  by (simp add: get_change_def and_then_def request_def raise_def return_def Let_def
      split: prod.splits sum.splits list.splits)

lemma drain_poll_pos:
  "0 < n \<Longrightarrow> drain_poll aws c is n s =
     (case describe_container_instances aws c is (world s) of
        (Inl e, w') \<Rightarrow> (Raise (ClientError e), \<lparr>world = w', calls = calls s @ [DescribeContainerInstances c is]\<rparr>)
      | (Inr ds, w') \<Rightarrow>
          (if list_all (\<lambda>i. runningTasksCount i = 0) ds then Return () else Raise (NameError ''sleep''),
           \<lparr>world = w', calls = calls s @ [DescribeContainerInstances c is]\<rparr>))"
  by (cases n) (simp_all add: and_then_def request_def return_def call_global_unbound sleep_unbound
      split: prod.splits sum.splits)

lemma drain_instances_eq:
  "drain_instances aws c is s =
     (case update_container_instances_state aws c is ''DRAINING'' (world s) of
        (Inl e, w1) \<Rightarrow>
          (Raise (ClientError e),
           \<lparr>world = w1, calls = calls s @ [UpdateContainerInstancesState c is ''DRAINING'']\<rparr>)
      | (Inr u, w1) \<Rightarrow>
          (case describe_container_instances aws c is w1 of
             (Inl e, w2) \<Rightarrow>
               (Raise (ClientError e),
                \<lparr>world = w2, calls = calls s @ [UpdateContainerInstancesState c is ''DRAINING'',
                                                 DescribeContainerInstances c is]\<rparr>)
           | (Inr ds, w2) \<Rightarrow>
               (if list_all (\<lambda>i. runningTasksCount i = 0) ds then Return ()
                else Raise (NameError ''sleep''),
                \<lparr>world = w2, calls = calls s @ [UpdateContainerInstancesState c is ''DRAINING'',
                                                 DescribeContainerInstances c is]\<rparr>)))"
  by (simp add: drain_instances_def and_then_def request_def drain_poll_pos
      split: prod.splits sum.splits)

lemma get_instances_to_remove_eq:
  "get_instances_to_remove aws c k s =
     (case list_container_instances aws c (world s) of
        (Inl e, w1) \<Rightarrow>
          (Raise (ClientError e), \<lparr>world = w1, calls = calls s @ [ListContainerInstances c]\<rparr>)
      | (Inr arns, w1) \<Rightarrow>
          (case describe_container_instances aws c arns w1 of
             (Inl e, w2) \<Rightarrow>
               (Raise (ClientError e),
                \<lparr>world = w2, calls = calls s @ [ListContainerInstances c,
                                                 DescribeContainerInstances c arns]\<rparr>)
           | (Inr raw, w2) \<Rightarrow>
               (Return (select_instances raw k),
                \<lparr>world = w2, calls = calls s @ [ListContainerInstances c,
                                                 DescribeContainerInstances c arns]\<rparr>)))"
  by (simp add: get_instances_to_remove_def and_then_def request_def return_def
      split: prod.splits sum.splits)

lemmas sim_defs = sim_aws_def idle_world_def busy_world_def refusing_world_def
  empty_world_def twin_world_def start_def node_def group_def

lemma main_get_change_raise:
  "get_change aws a d s = (Raise e, s') \<Longrightarrow> main aws c a d s = (Raise e, s')"
  by (simp add: main_def and_then_def)

lemma main_after_get_change:
  "get_change aws a d s = (Return ch, s1) \<Longrightarrow>
   main aws c a d s =
     (case get_instances_to_remove aws c ch s1 of
        (Raise e, s2) \<Rightarrow> (Raise e, s2)
      | (Return is, s2) \<Rightarrow>
          (case drain_instances aws c is s2 of
             (Raise e, s3) \<Rightarrow> (Raise e, s3)
           | (Return u, s3) \<Rightarrow> (Raise (NameError ''terminate_instances''), s3)))"
  by (simp add: main_def and_then_def call_global_unbound terminate_instances_unbound
      split: prod.splits result.splits)

lemma get_change_Return:
  "get_change aws a d s = (Return ch, s1) \<Longrightarrow>
   \<exists>g w'. describe_auto_scaling_groups aws [a] (world s) = (Inr [g], w')
     \<and> ch = DesiredCapacity g - d \<and> 0 < ch
     \<and> s1 = \<lparr>world = w', calls = calls s @ [DescribeAutoScalingGroups [a]]\<rparr>"
  by (auto simp: get_change_eq split: prod.splits sum.splits list.splits if_splits)

lemma get_change_exit:
  "get_change aws a d s = (Raise (SystemExit x), s1) \<Longrightarrow>
   \<exists>g w'. describe_auto_scaling_groups aws [a] (world s) = (Inr [g], w')
     \<and> DesiredCapacity g = d \<and> x = None
     \<and> s1 = \<lparr>world = w', calls = calls s @ [DescribeAutoScalingGroups [a]]\<rparr>"
  by (auto simp: get_change_eq split: prod.splits sum.splits list.splits if_splits)

lemma get_instances_to_remove_status:
  "get_instances_to_remove aws c k s = (Raise e, s') \<Longrightarrow> \<exists>code. e = ClientError code"
  by (auto simp: get_instances_to_remove_eq split: prod.splits sum.splits)

lemma drain_instances_status:
  "drain_instances aws c is s = (Raise e, s') \<Longrightarrow>
   (\<exists>code. e = ClientError code) \<or> e = NameError ''sleep''"
  by (auto simp: drain_instances_eq split: prod.splits sum.splits if_splits)

lemma main_status:
  "main aws c a d s = (r, s') \<Longrightarrow>
   (\<exists>e. get_change aws a d s = (Raise e, s') \<and> r = Raise e)
   \<or> (\<exists>code. r = Raise (ClientError code))
   \<or> r = Raise (NameError ''sleep'')
   \<or> r = Raise (NameError ''terminate_instances'')"
proof (cases "get_change aws a d s")
  case (Pair r1 s1)
  assume m: "main aws c a d s = (r, s')"
  show ?thesis
  proof (cases r1)
    case (Raise e)
    with Pair m show ?thesis by (simp add: main_get_change_raise)
  next
    case (Return ch)
    with Pair have g: "get_change aws a d s = (Return ch, s1)" by simp
    from m show ?thesis
      unfolding main_after_get_change [OF g]
      by (auto split: prod.splits result.splits
          dest: get_instances_to_remove_status drain_instances_status)
  qed
qed

lemma slice_upto_nonneg: "0 \<le> k \<Longrightarrow> slice_upto xs k = take (nat k) xs"
  by (simp add: slice_upto_def)

lemma terminate_calls:
  "\<exists>n. n \<le> length is
     \<and> calls (snd (terminate_instance aws is s)) =
         calls s @ map (\<lambda>i. TerminateInstanceInAutoScalingGroup i True) (take n is)
     \<and> (case fst (terminate_instance aws is s) of
           Return _ \<Rightarrow> n = length is
         | Raise e \<Rightarrow> 0 < n \<and> (\<exists>code. e = ClientError code))"
proof (induction "is" arbitrary: s)
  case Nil
  show ?case by (simp add: return_def)
next
  case (Cons i rest)
  obtain r w' where t: "terminate_instance_in_auto_scaling_group aws i True (world s) = (r, w')"
    by (cases "terminate_instance_in_auto_scaling_group aws i True (world s)")
  let ?s' = "\<lparr>world = w', calls = calls s @ [TerminateInstanceInAutoScalingGroup i True]\<rparr>"
  show ?case
  proof (cases r)
    case (Inl code)
    with t have "terminate_instance aws (i # rest) s = (Raise (ClientError code), ?s')"
      by (simp add: and_then_def request_def)
    then show ?thesis by (intro exI [of _ 1]) simp
  next
    case (Inr u)
    with t have step: "terminate_instance aws (i # rest) s = terminate_instance aws rest ?s'"
      by (simp add: and_then_def request_def)
    from Cons.IH [of ?s'] obtain n where n: "n \<le> length rest"
      "calls (snd (terminate_instance aws rest ?s')) =
         calls ?s' @ map (\<lambda>i. TerminateInstanceInAutoScalingGroup i True) (take n rest)"
      "(case fst (terminate_instance aws rest ?s') of
           Return _ \<Rightarrow> n = length rest
         | Raise e \<Rightarrow> 0 < n \<and> (\<exists>code. e = ClientError code))"
      by blast
    show ?thesis
      unfolding step using n
      by (intro exI [of _ "Suc n"]) (auto split: result.splits)
  qed
qed

section \<open>The claims\<close>

text \<open>
  C1. A run that ends with exit status zero leaves the desired capacity equal to the
  requested count. In terms of the requests: when \<open>main\<close> ends with status zero, the
  run issued exactly one request, the read of the group, and that read returned a single
  group whose desired capacity is the requested count. The same holds for the check of
  lines 16 to 19 taken by itself.
\<close>

theorem successful_run_capacity_matches:
  "(exit_status (fst (main aws c a d s)) = 0 \<longrightarrow>
      (\<exists>g w'. describe_auto_scaling_groups aws [a] (world s) = (Inr [g], w')
         \<and> DesiredCapacity g = d
         \<and> snd (main aws c a d s) = \<lparr>world = w', calls = calls s @ [DescribeAutoScalingGroups [a]]\<rparr>))
   \<and> (exit_status (fst (verify aws a d s)) = 0 \<longrightarrow>
      (\<exists>g w'. describe_auto_scaling_groups aws [a] (world s) = (Inr [g], w')
         \<and> DesiredCapacity g = d
         \<and> snd (verify aws a d s) = \<lparr>world = w', calls = calls s @ [DescribeAutoScalingGroups [a]]\<rparr>))"
proof (intro conjI impI)
  assume ok: "exit_status (fst (main aws c a d s)) = 0"
  obtain r s' where m: "main aws c a d s = (r, s')" by (cases "main aws c a d s")
  from main_status [OF m] ok m
  obtain e where e: "get_change aws a d s = (Raise e, s')" "r = Raise e"
    by auto
  from ok m e obtain x where "e = SystemExit x"
    by (auto simp: get_change_eq split: prod.splits sum.splits list.splits if_splits)
  with e get_change_exit [of aws a d s x s'] m
  show "\<exists>g w'. describe_auto_scaling_groups aws [a] (world s) = (Inr [g], w')
         \<and> DesiredCapacity g = d
         \<and> snd (main aws c a d s) = \<lparr>world = w', calls = calls s @ [DescribeAutoScalingGroups [a]]\<rparr>"
    by auto
next
  assume ok: "exit_status (fst (verify aws a d s)) = 0"
  then show "\<exists>g w'. describe_auto_scaling_groups aws [a] (world s) = (Inr [g], w')
         \<and> DesiredCapacity g = d
         \<and> snd (verify aws a d s) = \<lparr>world = w', calls = calls s @ [DescribeAutoScalingGroups [a]]\<rparr>"
    by (auto simp: verify_def and_then_def get_change_eq raise_def return_def
        split: prod.splits sum.splits list.splits if_splits)
qed

theorem successful_run_capacity_matches_witness:
  "exit_status (fst (main sim_aws ''ecs'' ''web'' 3 (start idle_world))) = 0
   \<and> (\<exists>g w'. describe_auto_scaling_groups sim_aws [''web''] (world (start idle_world)) = (Inr [g], w')
         \<and> DesiredCapacity g = 3)"
proof -
  have h: "exit_status (fst (main sim_aws ''ecs'' ''web'' 3 (start idle_world))) = 0"
    by (simp add: main_def and_then_def get_change_eq sim_defs)
  from successful_run_capacity_matches [of sim_aws "''ecs''" "''web''" 3 "start idle_world"] h
  show ?thesis by blast
qed

text \<open>
  C2. When \<open>get_change\<close> returns a change (which is then positive), the instances are
  selected and \<open>drain_instances\<close> returns, \<open>main\<close> raises \<open>NameError\<close> for
  \<open>terminate_instances\<close>; the state is the one \<open>drain_instances\<close> left, and no termination
  request is among the requests of the run.
\<close>

theorem main_name_error_before_termination:
  assumes "get_change aws a d s = (Return ch, s1)"
    and "get_instances_to_remove aws c ch s1 = (Return is, s2)"
    and "drain_instances aws c is s2 = (Return (), s3)"
  shows "0 < ch \<and> main aws c a d s = (Raise (NameError ''terminate_instances''), s3)
    \<and> (\<exists>tr. calls s3 = calls s @ tr \<and> list_all (\<lambda>x. \<not> is_termination x) tr)"
proof -
  from get_change_Return [OF assms(1)] have pos: "0 < ch"
    and c1: "calls s1 = calls s @ [DescribeAutoScalingGroups [a]]" by auto
  from assms(2) obtain arns where c2: "calls s2 = calls s1 @ [ListContainerInstances c, DescribeContainerInstances c arns]"
    by (auto simp: get_instances_to_remove_eq split: prod.splits sum.splits)
  from assms(3) have c3: "calls s3 = calls s2 @ [UpdateContainerInstancesState c is ''DRAINING'', DescribeContainerInstances c is]"
    by (auto simp: drain_instances_eq split: prod.splits sum.splits if_splits)
  have m: "main aws c a d s = (Raise (NameError ''terminate_instances''), s3)"
    by (simp add: main_after_get_change [OF assms(1)] assms(2,3))
  from c1 c2 c3 have "\<exists>tr. calls s3 = calls s @ tr \<and> list_all (\<lambda>x. \<not> is_termination x) tr"
    by simp
  with pos m show ?thesis by simp
qed

theorem main_name_error_before_termination_witness:
  "main sim_aws ''ecs'' ''web'' 1 (start idle_world) =
     (Raise (NameError ''terminate_instances''),
      \<lparr>world = idle_world,
       calls = [DescribeAutoScalingGroups [''web''], ListContainerInstances ''ecs'',
                DescribeContainerInstances ''ecs'' [''arn-b'', ''arn-a'', ''arn-c''],
                UpdateContainerInstancesState ''ecs'' [''i-a'', ''i-b''] ''DRAINING'',
                DescribeContainerInstances ''ecs'' [''i-a'', ''i-b'']]\<rparr>)"
proof -
  let ?s1 = "\<lparr>world = idle_world, calls = [DescribeAutoScalingGroups [''web'']]\<rparr>"
  let ?s2 = "\<lparr>world = idle_world,
       calls = [DescribeAutoScalingGroups [''web''], ListContainerInstances ''ecs'',
                DescribeContainerInstances ''ecs'' [''arn-b'', ''arn-a'', ''arn-c'']]\<rparr>"
  let ?s3 = "\<lparr>world = idle_world,
       calls = [DescribeAutoScalingGroups [''web''], ListContainerInstances ''ecs'',
                DescribeContainerInstances ''ecs'' [''arn-b'', ''arn-a'', ''arn-c''],
                UpdateContainerInstancesState ''ecs'' [''i-a'', ''i-b''] ''DRAINING'',
                DescribeContainerInstances ''ecs'' [''i-a'', ''i-b'']]\<rparr>"
  have h1: "get_change sim_aws ''web'' 1 (start idle_world) = (Return 2, ?s1)"
    by (simp add: get_change_eq sim_defs)
  have h2: "get_instances_to_remove sim_aws ''ecs'' 2 ?s1 = (Return [''i-a'', ''i-b''], ?s2)"
    by (simp add: get_instances_to_remove_eq select_instances_def slice_upto_def sim_defs)
  have h3: "drain_instances sim_aws ''ecs'' [''i-a'', ''i-b''] ?s2 = (Return (), ?s3)"
    by (simp add: drain_instances_eq sim_defs)
  from main_name_error_before_termination [OF h1 h2 h3] show ?thesis by simp
qed

text \<open>
  C3. When the drain request is accepted and the first poll reports an instance with a
  running task, \<open>drain_instances\<close> raises \<open>NameError\<close> for \<open>sleep\<close> after that one
  poll. So \<open>drain_instances\<close> returns only when the first poll reports no running task
  anywhere, it never polls twice, and it never raises the \<open>RuntimeError\<close> of its
  \<open>else\<close> branch.
\<close>

theorem drain_name_error_on_busy_first_poll:
  "(\<forall>w1 w2 ds.
      update_container_instances_state aws c is ''DRAINING'' (world s) = (Inr (), w1)
      \<and> describe_container_instances aws c is w1 = (Inr ds, w2)
      \<and> (\<exists>i \<in> set ds. runningTasksCount i \<noteq> 0)
      \<longrightarrow> drain_instances aws c is s =
            (Raise (NameError ''sleep''),
             \<lparr>world = w2,
              calls = calls s @ [UpdateContainerInstancesState c is ''DRAINING'',
                                 DescribeContainerInstances c is]\<rparr>))
   \<and> (fst (drain_instances aws c is s) = Return () \<longrightarrow>
        (\<exists>w1 w2 ds.
           update_container_instances_state aws c is ''DRAINING'' (world s) = (Inr (), w1)
           \<and> describe_container_instances aws c is w1 = (Inr ds, w2)
           \<and> (\<forall>i \<in> set ds. runningTasksCount i = 0)
           \<and> snd (drain_instances aws c is s) =
               \<lparr>world = w2,
                calls = calls s @ [UpdateContainerInstancesState c is ''DRAINING'',
                                   DescribeContainerInstances c is]\<rparr>))
   \<and> (calls (snd (drain_instances aws c is s)) =
         calls s @ [UpdateContainerInstancesState c is ''DRAINING'']
       \<or> calls (snd (drain_instances aws c is s)) =
         calls s @ [UpdateContainerInstancesState c is ''DRAINING'',
                    DescribeContainerInstances c is])
   \<and> (\<forall>msg. fst (drain_instances aws c is s) \<noteq> Raise (RuntimeError msg))"
  by (auto simp: drain_instances_eq list_all_iff split: prod.splits sum.splits if_splits)

theorem drain_name_error_on_busy_first_poll_witness:
  "drain_instances sim_aws ''ecs'' [''i-a'', ''i-b''] (start busy_world) =
     (Raise (NameError ''sleep''),
      \<lparr>world = busy_world,
       calls = [UpdateContainerInstancesState ''ecs'' [''i-a'', ''i-b''] ''DRAINING'',
                DescribeContainerInstances ''ecs'' [''i-a'', ''i-b'']]\<rparr>)"
proof -
  have h: "update_container_instances_state sim_aws ''ecs'' [''i-a'', ''i-b''] ''DRAINING''
             (world (start busy_world)) = (Inr (), busy_world)
      \<and> describe_container_instances sim_aws ''ecs'' [''i-a'', ''i-b''] busy_world =
          (Inr [node ''arn-b'' ''i-b'' 20 0, node ''arn-a'' ''i-a'' 10 1], busy_world)
      \<and> (\<exists>i \<in> set [node ''arn-b'' ''i-b'' 20 0, node ''arn-a'' ''i-a'' 10 1].
            runningTasksCount i \<noteq> 0)"
    by (simp add: sim_defs)
  from drain_name_error_on_busy_first_poll [of sim_aws "''ecs''" "[''i-a'', ''i-b'']" "start busy_world"] h
  have "drain_instances sim_aws ''ecs'' [''i-a'', ''i-b''] (start busy_world) =
     (Raise (NameError ''sleep''),
      \<lparr>world = busy_world,
       calls = calls (start busy_world) @ [UpdateContainerInstancesState ''ecs'' [''i-a'', ''i-b''] ''DRAINING'',
                DescribeContainerInstances ''ecs'' [''i-a'', ''i-b'']]\<rparr>)"
    by blast
  then show ?thesis by (simp add: start_def)
qed

text \<open>
  C4. A run whose selected instances keep a running task does not end in the time-out error
  of \<open>drain_instances\<close>: in the simulated world with a busy oldest instance the run ends
  after a single poll with \<open>NameError\<close> for \<open>sleep\<close>. No termination request is issued.
\<close>

theorem busy_run_ends_in_name_error:
  "main sim_aws ''ecs'' ''web'' 1 (start busy_world) =
     (Raise (NameError ''sleep''),
      \<lparr>world = busy_world,
       calls = [DescribeAutoScalingGroups [''web''], ListContainerInstances ''ecs'',
                DescribeContainerInstances ''ecs'' [''arn-b'', ''arn-a'', ''arn-c''],
                UpdateContainerInstancesState ''ecs'' [''i-a'', ''i-b''] ''DRAINING'',
                DescribeContainerInstances ''ecs'' [''i-a'', ''i-b'']]\<rparr>)"
  by (simp add: main_def and_then_def get_change_eq get_instances_to_remove_eq
      drain_instances_eq select_instances_def slice_upto_def sim_defs)

text \<open>
  C5. For a count \<open>k\<close> (an integer that is not negative; \<open>main\<close> passes the positive
  result of \<open>get_change\<close>), the selection returns \<open>min k (length nodes)\<close> identifiers.
  They are the identifiers of a list of nodes in ascending order of \<open>registeredAt\<close>, which
  together with the nodes left out makes up the input, and no node left out was registered
  before a chosen one. When \<open>k\<close> is at least the number of nodes, all of them are
  returned. The selection is a function of its two arguments, so equal inputs give equal
  results. (For a negative \<open>k\<close> the slice of line 53 drops entries from the end.)
\<close>

theorem select_instances_oldest_first:
  assumes "0 \<le> k"
  shows "length (select_instances nodes k) = min (nat k) (length nodes)
    \<and> (\<exists>chosen rest.
          select_instances nodes k = map ec2InstanceId chosen
          \<and> mset (chosen @ rest) = mset nodes
          \<and> sorted (map registeredAt chosen)
          \<and> (\<forall>x \<in> set chosen. \<forall>y \<in> set rest. registeredAt x \<le> registeredAt y))
    \<and> (int (length nodes) \<le> k \<longrightarrow>
          select_instances nodes k = map ec2InstanceId (sort_key registeredAt nodes))"
proof -
  let ?s = "sort_key registeredAt nodes"
  let ?chosen = "take (nat k) ?s"
  let ?rest = "drop (nat k) ?s"
  have sel: "select_instances nodes k = map ec2InstanceId ?chosen"
    using assms by (simp add: select_instances_def slice_upto_nonneg)
  have len: "length (select_instances nodes k) = min (nat k) (length nodes)"
    by (simp add: sel min.commute)
  have ms: "mset (?chosen @ ?rest) = mset nodes" by simp
  have "sorted (map registeredAt (?chosen @ ?rest))" by simp
  then have srt: "sorted (map registeredAt ?chosen)"
    and le: "\<forall>x \<in> set ?chosen. \<forall>y \<in> set ?rest. registeredAt x \<le> registeredAt y"
    unfolding map_append sorted_append by auto
  have all: "int (length nodes) \<le> k \<longrightarrow>
          select_instances nodes k = map ec2InstanceId ?s"
    by (simp add: sel)
  from sel ms srt le have "\<exists>chosen rest.
          select_instances nodes k = map ec2InstanceId chosen
          \<and> mset (chosen @ rest) = mset nodes
          \<and> sorted (map registeredAt chosen)
          \<and> (\<forall>x \<in> set chosen. \<forall>y \<in> set rest. registeredAt x \<le> registeredAt y)"
    by blast
  with len all show ?thesis by blast
qed

theorem select_instances_oldest_first_witness:
  "(0::int) \<le> 2
   \<and> length (select_instances (sim_instances idle_world) 2) = 2
   \<and> select_instances (sim_instances idle_world) 2 = [''i-a'', ''i-b'']"
proof -
  have h: "(0::int) \<le> 2" by simp
  have e: "select_instances (sim_instances idle_world) 2 = [''i-a'', ''i-b'']"
    by (simp add: select_instances_def slice_upto_def sim_defs)
  from select_instances_oldest_first [OF h, of "sim_instances idle_world"] e show ?thesis
    by simp
qed

text \<open>
  C6. When the single group that is found has a desired capacity below the requested count,
  \<open>main\<close> ends with the \<open>ValueError\<close> of line 33, raised in \<open>get_change\<close>; the
  exit status is 1 and the only request of the run is the read of the group.
\<close>

theorem under_capacity_fails_without_mutation:
  assumes "describe_auto_scaling_groups aws [a] (world s) = (Inr [g], w')"
    and "DesiredCapacity g < d"
  shows "main aws c a d s =
           (Raise (ValueError (''ASG '' @ a @ '' has fewer than '' @ str_int d @ '' instances'')),
            \<lparr>world = w', calls = calls s @ [DescribeAutoScalingGroups [a]]\<rparr>)
    \<and> fst (get_change aws a d s) = Raise (ValueError (''ASG '' @ a @ '' has fewer than '' @ str_int d @ '' instances''))
    \<and> exit_status (fst (main aws c a d s)) = 1"
proof -
  from assms have g: "get_change aws a d s =
           (Raise (ValueError (''ASG '' @ a @ '' has fewer than '' @ str_int d @ '' instances'')),
            \<lparr>world = w', calls = calls s @ [DescribeAutoScalingGroups [a]]\<rparr>)"
    by (simp add: get_change_eq)
  from main_get_change_raise [OF g] g show ?thesis by simp
qed

theorem under_capacity_fails_without_mutation_witness:
  "main sim_aws ''ecs'' ''web'' 4 (start idle_world) =
     (Raise (ValueError ''ASG web has fewer than 4 instances''),
      \<lparr>world = idle_world, calls = [DescribeAutoScalingGroups [''web'']]\<rparr>)
   \<and> exit_status (fst (main sim_aws ''ecs'' ''web'' 4 (start idle_world))) = 1"
proof -
  have h1: "describe_auto_scaling_groups sim_aws [''web''] (world (start idle_world)) =
              (Inr [group ''web'' 3], idle_world)"
    by (simp add: sim_defs)
  have h2: "DesiredCapacity (group ''web'' 3) < 4" by (simp add: group_def)
  have s: "str_int 4 = ''4''" by (simp add: str_int_def str_nat.simps)
  from under_capacity_fails_without_mutation [OF h1 h2, of "''ecs''"] show ?thesis by (simp add: s start_def)
qed

text \<open>
  C7. When the single group that is found has a desired capacity equal to the requested
  count, \<open>main\<close> ends with \<open>exit()\<close> in \<open>get_change\<close>: the exit status is 0 and the
  only request of the run is the read of the group.
\<close>

theorem zero_change_exits_without_mutation:
  assumes "describe_auto_scaling_groups aws [a] (world s) = (Inr [g], w')"
    and "DesiredCapacity g = d"
  shows "main aws c a d s =
           (Raise (SystemExit None),
            \<lparr>world = w', calls = calls s @ [DescribeAutoScalingGroups [a]]\<rparr>)
    \<and> exit_status (fst (main aws c a d s)) = 0"
proof -
  from assms have g: "get_change aws a d s =
           (Raise (SystemExit None),
            \<lparr>world = w', calls = calls s @ [DescribeAutoScalingGroups [a]]\<rparr>)"
    by (simp add: get_change_eq)
  from main_get_change_raise [OF g] show ?thesis by simp
qed

theorem zero_change_exits_without_mutation_witness:
  "main sim_aws ''ecs'' ''web'' 3 (start idle_world) =
     (Raise (SystemExit None),
      \<lparr>world = idle_world, calls = [DescribeAutoScalingGroups [''web'']]\<rparr>)
   \<and> exit_status (fst (main sim_aws ''ecs'' ''web'' 3 (start idle_world))) = 0"
proof -
  have h1: "describe_auto_scaling_groups sim_aws [''web''] (world (start idle_world)) =
              (Inr [group ''web'' 3], idle_world)"
    by (simp add: sim_defs)
  have h2: "DesiredCapacity (group ''web'' 3) = 3" by (simp add: group_def)
  from zero_change_exits_without_mutation [OF h1 h2, of "''ecs''"] show ?thesis by (simp add: start_def)
qed

text \<open>
  C8, as the code has it. \<open>terminate_instance\<close> issues one termination request per
  instance, in the order of the list. A refused request is raised at once, with no request
  for the instances after it; an accepted one is followed by the rest of the list. The
  requests issued are those for a prefix of the list, the function returns only when the
  prefix is the whole list, and otherwise it raises the refusal of the last request.
\<close>

theorem terminate_instance_stops_at_refusal:
  "(\<forall>code w'. terminate_instance_in_auto_scaling_group aws i True (world s) = (Inl code, w')
      \<longrightarrow> terminate_instance aws (i # rest) s =
            (Raise (ClientError code),
             \<lparr>world = w', calls = calls s @ [TerminateInstanceInAutoScalingGroup i True]\<rparr>))
   \<and> (\<forall>w'. terminate_instance_in_auto_scaling_group aws i True (world s) = (Inr (), w')
      \<longrightarrow> terminate_instance aws (i # rest) s =
            terminate_instance aws rest
              \<lparr>world = w', calls = calls s @ [TerminateInstanceInAutoScalingGroup i True]\<rparr>)
   \<and> (\<exists>n. n \<le> length is
     \<and> calls (snd (terminate_instance aws is s)) =
         calls s @ map (\<lambda>i. TerminateInstanceInAutoScalingGroup i True) (take n is)
     \<and> (case fst (terminate_instance aws is s) of
           Return _ \<Rightarrow> n = length is
         | Raise e \<Rightarrow> 0 < n \<and> (\<exists>code. e = ClientError code)))"
  using terminate_calls [of "is" aws s]
  by (simp add: and_then_def request_def)

theorem terminate_instance_stops_at_refusal_witness:
  "terminate_instance sim_aws [''i-b'', ''i-a'', ''i-c''] (start refusing_world) =
     (Raise (ClientError ''ValidationError''),
      \<lparr>world = \<lparr>sim_groups = [group ''web'' 2],
                 sim_instances = [node ''arn-a'' ''i-a'' 10 0, node ''arn-c'' ''i-c'' 30 0],
                 sim_refused = [''i-a'']\<rparr>,
       calls = [TerminateInstanceInAutoScalingGroup ''i-b'' True,
                TerminateInstanceInAutoScalingGroup ''i-a'' True]\<rparr>)"
proof -
  let ?w1 = "\<lparr>sim_groups = [group ''web'' 2],
                 sim_instances = [node ''arn-a'' ''i-a'' 10 0, node ''arn-c'' ''i-c'' 30 0],
                 sim_refused = [''i-a'']\<rparr>"
  let ?s1 = "\<lparr>world = ?w1, calls = calls (start refusing_world) @ [TerminateInstanceInAutoScalingGroup ''i-b'' True]\<rparr>"
  have h1: "terminate_instance_in_auto_scaling_group sim_aws ''i-b'' True
              (world (start refusing_world)) = (Inr (), ?w1)"
    by (simp add: sim_defs)
  have h2: "terminate_instance_in_auto_scaling_group sim_aws ''i-a'' True (world ?s1)
              = (Inl ''ValidationError'', ?w1)"
    by (simp add: sim_defs)
  from terminate_instance_stops_at_refusal [of sim_aws "''i-b''" "start refusing_world" "[''i-a'', ''i-c'']" "[]"] h1
  have a: "terminate_instance sim_aws [''i-b'', ''i-a'', ''i-c''] (start refusing_world) =
             terminate_instance sim_aws [''i-a'', ''i-c''] ?s1"
    by blast
  from terminate_instance_stops_at_refusal [of sim_aws "''i-a''" ?s1 "[''i-c'']" "[]"] h2
  have b: "terminate_instance sim_aws [''i-a'', ''i-c''] ?s1 =
     (Raise (ClientError ''ValidationError''),
      \<lparr>world = ?w1, calls = calls ?s1 @ [TerminateInstanceInAutoScalingGroup ''i-a'' True]\<rparr>)"
    by blast
  from a b show ?thesis by (simp add: start_def)
qed

text \<open>
  C8, as stated, fails: with the termination of \<open>i-a\<close> refused, the instance after it
  in the list is never processed.
\<close>

theorem terminate_instance_aborts_counterexample:
  "terminate_instance sim_aws [''i-a'', ''i-b''] (start refusing_world) =
     (Raise (ClientError ''ValidationError''),
      \<lparr>world = refusing_world, calls = [TerminateInstanceInAutoScalingGroup ''i-a'' True]\<rparr>)
   \<and> TerminateInstanceInAutoScalingGroup ''i-b'' True
       \<notin> set (calls (snd (terminate_instance sim_aws [''i-a'', ''i-b''] (start refusing_world))))"
  by (simp add: and_then_def request_def return_def sim_defs)

text \<open>
  C9. When the read of the group returns no group, \<open>main\<close> ends with the \<open>ValueError\<close>
  of line 26, and when it returns more than one, with the \<open>ValueError\<close> of line 28.
  Both are raised in \<open>get_change\<close>, give exit status 1, and leave the read of the group
  as the only request of the run.
\<close>

theorem group_lookup_errors_fatal:
  assumes "describe_auto_scaling_groups aws [a] (world s) = (Inr asgs, w')"
  shows "(length asgs = 0 \<longrightarrow>
            main aws c a d s =
              (Raise (ValueError ''Unable to find Auto Scaling Group''),
               \<lparr>world = w', calls = calls s @ [DescribeAutoScalingGroups [a]]\<rparr>))
    \<and> (1 < length asgs \<longrightarrow>
            main aws c a d s =
              (Raise (ValueError ''More than one Auto Scaling Group was found''),
               \<lparr>world = w', calls = calls s @ [DescribeAutoScalingGroups [a]]\<rparr>))
    \<and> (length asgs \<noteq> 1 \<longrightarrow>
            (\<exists>msg. fst (get_change aws a d s) = Raise (ValueError msg))
            \<and> exit_status (fst (main aws c a d s)) = 1)"
proof -
  from assms have g0: "length asgs = 0 \<Longrightarrow> get_change aws a d s =
              (Raise (ValueError ''Unable to find Auto Scaling Group''),
               \<lparr>world = w', calls = calls s @ [DescribeAutoScalingGroups [a]]\<rparr>)"
    by (simp add: get_change_eq)
  from assms have g2: "1 < length asgs \<Longrightarrow> get_change aws a d s =
              (Raise (ValueError ''More than one Auto Scaling Group was found''),
               \<lparr>world = w', calls = calls s @ [DescribeAutoScalingGroups [a]]\<rparr>)"
    by (auto simp: get_change_eq split: list.splits)
  have "length asgs \<noteq> 1 \<Longrightarrow> length asgs = 0 \<or> 1 < length asgs" by arith
  with main_get_change_raise [OF g0] main_get_change_raise [OF g2] g0 g2
  show ?thesis by auto
qed

theorem group_lookup_errors_fatal_witness:
  "main sim_aws ''ecs'' ''web'' 1 (start empty_world) =
     (Raise (ValueError ''Unable to find Auto Scaling Group''),
      \<lparr>world = empty_world, calls = [DescribeAutoScalingGroups [''web'']]\<rparr>)
   \<and> main sim_aws ''ecs'' ''web'' 1 (start twin_world) =
     (Raise (ValueError ''More than one Auto Scaling Group was found''),
      \<lparr>world = twin_world, calls = [DescribeAutoScalingGroups [''web'']]\<rparr>)"
proof -
  have h0: "describe_auto_scaling_groups sim_aws [''web''] (world (start empty_world)) =
              (Inr [], empty_world)"
    by (simp add: sim_defs)
  have h2: "describe_auto_scaling_groups sim_aws [''web''] (world (start twin_world)) =
              (Inr [group ''web'' 3, group ''web'' 5], twin_world)"
    by (simp add: sim_defs)
  from group_lookup_errors_fatal [OF h0, of "''ecs''" 1] group_lookup_errors_fatal [OF h2, of "''ecs''" 1]
  show ?thesis by (simp add: start_def)
qed

text \<open>
  C10. The check of lines 16 to 19 raises its \<open>RuntimeError\<close> exactly when the read
  returns a single group whose desired capacity exceeds the requested count. With a
  difference of zero \<open>get_change\<close> exits with status 0 before the comparison of line 16,
  and with a negative difference it raises the \<open>ValueError\<close> of line 33.
\<close>

theorem verify_convergence_error_iff_positive:
  "(fst (verify aws a d s) = Raise (RuntimeError convergence_message)
      \<longleftrightarrow> (\<exists>g w'. describe_auto_scaling_groups aws [a] (world s) = (Inr [g], w')
                  \<and> 0 < DesiredCapacity g - d))
   \<and> (\<forall>g w'. describe_auto_scaling_groups aws [a] (world s) = (Inr [g], w')
         \<and> DesiredCapacity g - d = 0
        \<longrightarrow> verify aws a d s =
              (Raise (SystemExit None),
               \<lparr>world = w', calls = calls s @ [DescribeAutoScalingGroups [a]]\<rparr>)
            \<and> exit_status (fst (verify aws a d s)) = 0)
   \<and> (\<forall>g w'. describe_auto_scaling_groups aws [a] (world s) = (Inr [g], w')
         \<and> DesiredCapacity g - d < 0
        \<longrightarrow> verify aws a d s =
              (Raise (ValueError (''ASG '' @ a @ '' has fewer than '' @ str_int d @ '' instances'')),
               \<lparr>world = w', calls = calls s @ [DescribeAutoScalingGroups [a]]\<rparr>))"
  by (auto simp: verify_def and_then_def get_change_eq raise_def return_def
      split: prod.splits sum.splits list.splits if_splits)

theorem verify_convergence_error_iff_positive_witness:
  "fst (verify sim_aws ''web'' 1 (start idle_world)) = Raise (RuntimeError convergence_message)
   \<and> verify sim_aws ''web'' 3 (start idle_world) =
       (Raise (SystemExit None),
        \<lparr>world = idle_world, calls = [DescribeAutoScalingGroups [''web'']]\<rparr>)
   \<and> verify sim_aws ''web'' 4 (start idle_world) =
       (Raise (ValueError ''ASG web has fewer than 4 instances''),
        \<lparr>world = idle_world, calls = [DescribeAutoScalingGroups [''web'']]\<rparr>)"
proof -
  have h: "describe_auto_scaling_groups sim_aws [''web''] (world (start idle_world)) =
              (Inr [group ''web'' 3], idle_world)"
    by (simp add: sim_defs)
  have d: "DesiredCapacity (group ''web'' 3) = 3" by (simp add: group_def)
  have s: "str_int 4 = ''4''" by (simp add: str_int_def str_nat.simps)
  have c: "calls (start idle_world) = []" by (simp add: start_def)
  from verify_convergence_error_iff_positive [of sim_aws "''web''" 1 "start idle_world"] h d
  have a: "fst (verify sim_aws ''web'' 1 (start idle_world)) = Raise (RuntimeError convergence_message)"
    by simp
  from verify_convergence_error_iff_positive [of sim_aws "''web''" 3 "start idle_world"] h d
  have b: "verify sim_aws ''web'' 3 (start idle_world) =
       (Raise (SystemExit None),
        \<lparr>world = idle_world, calls = calls (start idle_world) @ [DescribeAutoScalingGroups [''web'']]\<rparr>)"
    by simp
  from verify_convergence_error_iff_positive [of sim_aws "''web''" 4 "start idle_world"] h d
  have e: "verify sim_aws ''web'' 4 (start idle_world) =
       (Raise (ValueError (''ASG '' @ ''web'' @ '' has fewer than '' @ str_int 4 @ '' instances'')),
        \<lparr>world = idle_world, calls = calls (start idle_world) @ [DescribeAutoScalingGroups [''web'']]\<rparr>)"
    by simp
  from a b e show ?thesis by (simp add: s c)
qed

end
